theory Spec2Isabelle
  imports Complex_Main "HOL-Library.Multiset"
begin

section \<open>Data model\<close>

text \<open>
  A canonical table is a pandas DataFrame with the columns timestamp, region, price and,
  optionally, demand. A timestamp is an instant counted in nanoseconds (the resolution of
  a pandas Timestamp); the zone of the timestamp column is a property of the column, as in
  pandas, and is recorded once per frame. Python floats are modelled as exact reals, so
  NaN, infinities and rounding are outside the model; a missing demand value is
  \<open>None\<close>.
\<close>

record row =
  timestamp :: int
  region :: string
  price :: real
  demand :: "real option"

record frame =
  tz :: "string option"
  has_demand :: bool
  rows :: "row list"

text \<open>
  Every \<open>raise\<close> of the package is one constructor. All but \<open>FileNotFound\<close> are a
  \<open>DataValidationError\<close> in the source, told apart by their message:
  \<^item> \<open>EmptyBacktestData\<close>: "Cannot run battery backtest on empty data."
  \<^item> \<open>BadEfficiency\<close>: "round_trip_efficiency must be in (0, 1]."
  \<^item> \<open>BadQuantiles\<close>: "Quantiles must satisfy 0 <= low < high <= 1."
  \<^item> \<open>EmptySummaryData\<close>: "Cannot compute summary on empty dataset."
  \<^item> \<open>EmptySpikeData\<close>: "Cannot detect spikes on empty dataset."
  \<^item> \<open>MissingCriterion\<close>: "Provide either threshold or quantile."
  \<^item> \<open>QuantileOutOfRange\<close>: "Quantile must be between 0 and 1."
  \<^item> \<open>EmptyCsv\<close>: "CSV file is empty."
  \<^item> \<open>OverrideNotFound target override\<close>: "Override for 'target' not found in CSV: override"
  \<^item> \<open>MissingRequiredColumn key\<close>: "Missing required column for 'key'."
  \<^item> \<open>BadTimestamp\<close>, \<open>BadPrice\<close>, \<open>BadRegion\<close>: "... column contains invalid or
    missing values."
  \<^item> \<open>NoCsvFiles\<close>: "No CSV files provided."
  \<^item> \<open>PandasError\<close>: an exception raised inside pandas (not a
    \<open>DataValidationError\<close>) when a column the loader reads by its canonical name is
    absent or not unique after renaming.
\<close>

datatype error =
    EmptyBacktestData
  | BadEfficiency
  | BadQuantiles
  | EmptySummaryData
  | EmptySpikeData
  | MissingCriterion
  | QuantileOutOfRange
  | FileNotFound string
  | EmptyCsv
  | OverrideNotFound string string
  | MissingRequiredColumn string
  | BadTimestamp
  | BadPrice
  | BadRegion
  | NoCsvFiles
  | PandasError

section \<open>Series operations of pandas used by the package\<close>

text \<open>
  \<open>Series.quantile(q)\<close> with the default linear interpolation: on the sorted values
  \<open>s\<close> of length \<open>n\<close> the virtual index is \<open>h = (n - 1) * q\<close> and the result
  interpolates between \<open>s[floor h]\<close> and its successor.
\<close>

definition series_quantile :: "real list \<Rightarrow> real \<Rightarrow> real" where
  "series_quantile xs q =
     (let s = sort xs;
          h = real (length s - 1) * q;
          lo = nat \<lfloor>h\<rfloor>;
          hi = min (lo + 1) (length s - 1)
      in s ! lo + (h - real lo) * (s ! hi - s ! lo))"

text \<open>\<open>Series.median()\<close>: the middle value, or the mean of the two middle values.\<close>

definition series_median :: "real list \<Rightarrow> real" where
  "series_median xs =
     (let s = sort xs; n = length s
      in if odd n then s ! (n div 2) else (s ! (n div 2 - 1) + s ! (n div 2)) / 2)"

text \<open>\<open>Series.diff().dropna()\<close>: the differences of successive values.\<close>

fun series_diff :: "int list \<Rightarrow> int list" where
  "series_diff (a # b # xs) = (b - a) # series_diff (b # xs)"
| "series_diff xs = []"

text \<open>\<open>Timedelta.total_seconds()\<close> of a difference of two nanosecond instants.\<close>

definition total_seconds :: "int \<Rightarrow> real" where
  "total_seconds d = real_of_int d / 1000000000"

section \<open>The battery backtest (battery\_strategy.py)\<close>

record config =
  low_quantile :: real
  high_quantile :: real
  round_trip_efficiency :: real
  capacity_mwh :: real
  power_mw :: real

record BatteryResult =
  total_profit :: real
  charge_events :: nat
  discharge_events :: nat
  cycles :: nat
  energy_from_grid_mwh :: real
  energy_to_grid_mwh :: real
  low_threshold :: real
  high_threshold :: real
  interval_hours :: real

text \<open>
  The local variables that the loop of \<open>battery_backtest\<close> updates; the two event counters
  carry the prefix \<open>n_\<close> to keep them apart from the fields of the result.
\<close>

record sim_state =
  soc :: real
  cost :: real
  revenue :: real
  n_charge_events :: nat
  n_discharge_events :: nat
  energy_from_grid :: real
  energy_to_grid :: real

definition init_state :: sim_state where
  "init_state = \<lparr>soc = 0, cost = 0, revenue = 0, n_charge_events = 0,
     n_discharge_events = 0, energy_from_grid = 0, energy_to_grid = 0\<rparr>"

definition estimate_interval_hours :: "frame \<Rightarrow> real" where
  "estimate_interval_hours df =
     (let deltas = map total_seconds (series_diff (sort (map timestamp (rows df))))
      in if deltas = [] then 1
         else let median_seconds = series_median deltas
              in if median_seconds \<noteq> 0 then median_seconds / 3600 else 1)"

text \<open>The first \<open>if\<close> of the loop body: the charge check.\<close>

definition charge :: "config \<Rightarrow> real \<Rightarrow> real \<Rightarrow> real \<Rightarrow> sim_state \<Rightarrow> sim_state" where
  "charge cfg low_thr ih p s =
     (if p \<le> low_thr \<and> soc s < capacity_mwh cfg then
        (let max_energy_in = power_mw cfg * ih;
             allowed_in = min max_energy_in (capacity_mwh cfg - soc s)
         in if allowed_in > 0 then
              s\<lparr>soc := soc s + allowed_in,
                cost := cost s + p * allowed_in,
                energy_from_grid := energy_from_grid s + allowed_in,
                n_charge_events := n_charge_events s + 1\<rparr>
            else s)
      else s)"

text \<open>The second \<open>if\<close> of the loop body: the discharge check.\<close>

definition discharge :: "config \<Rightarrow> real \<Rightarrow> real \<Rightarrow> real \<Rightarrow> sim_state \<Rightarrow> sim_state" where
  "discharge cfg high_thr ih p s =
     (if p \<ge> high_thr \<and> soc s > 0 then
        (let max_energy_out = power_mw cfg * ih;
             allowed_out = min max_energy_out (soc s)
         in if allowed_out > 0 then
              (let delivered = allowed_out * round_trip_efficiency cfg
               in s\<lparr>soc := soc s - allowed_out,
                    revenue := revenue s + p * delivered,
                    energy_to_grid := energy_to_grid s + delivered,
                    n_discharge_events := n_discharge_events s + 1\<rparr>)
            else s)
      else s)"

text \<open>One pass of the loop body, and the loop \<open>for price in prices\<close>.\<close>

definition row_step :: "config \<Rightarrow> real \<Rightarrow> real \<Rightarrow> real \<Rightarrow> real \<Rightarrow> sim_state \<Rightarrow> sim_state" where
  "row_step cfg low_thr high_thr ih p s =
     discharge cfg high_thr ih p (charge cfg low_thr ih p s)"

fun simulate :: "config \<Rightarrow> real \<Rightarrow> real \<Rightarrow> real \<Rightarrow> sim_state \<Rightarrow> real list \<Rightarrow> sim_state" where
  "simulate cfg low_thr high_thr ih s [] = s"
| "simulate cfg low_thr high_thr ih s (p # ps) =
     simulate cfg low_thr high_thr ih (row_step cfg low_thr high_thr ih p s) ps"

text \<open>
  \<open>df.sort_values("timestamp")\<close> is modelled by the stable \<open>sort_key\<close>; the order pandas
  gives to rows of equal timestamp is not relied upon by any theorem below.
\<close>

definition sorted_prices :: "frame \<Rightarrow> real list" where
  "sorted_prices df = map price (sort_key timestamp (rows df))"

definition battery_backtest :: "frame \<Rightarrow> config \<Rightarrow> error + BatteryResult" where
  "battery_backtest df cfg =
     (if rows df = [] then Inl EmptyBacktestData
      else if \<not> (0 < round_trip_efficiency cfg \<and> round_trip_efficiency cfg \<le> 1)
        then Inl BadEfficiency
      else if \<not> (0 \<le> low_quantile cfg \<and> low_quantile cfg < high_quantile cfg
                  \<and> high_quantile cfg \<le> 1)
        then Inl BadQuantiles
      else
        (let sorted_df = df\<lparr>rows := sort_key timestamp (rows df)\<rparr>;
             prices = map price (rows sorted_df);
             low_thr = series_quantile prices (low_quantile cfg);
             high_thr = series_quantile prices (high_quantile cfg);
             ih = estimate_interval_hours sorted_df;
             s = simulate cfg low_thr high_thr ih init_state prices
         in Inr \<lparr>total_profit = revenue s - cost s,
                 charge_events = n_charge_events s,
                 discharge_events = n_discharge_events s,
                 cycles = min (n_charge_events s) (n_discharge_events s),
                 energy_from_grid_mwh = energy_from_grid s,
                 energy_to_grid_mwh = energy_to_grid s,
                 low_threshold = low_thr,
                 high_threshold = high_thr,
                 interval_hours = ih\<rparr>))"

text \<open>
  Every state the loop passes through, in order: the state before a row, the state
  between the two checks of that row, and so on up to the final state. The list exists to
  state properties that hold at every point of a run.
\<close>

fun trace :: "config \<Rightarrow> real \<Rightarrow> real \<Rightarrow> real \<Rightarrow> sim_state \<Rightarrow> real list \<Rightarrow> sim_state list" where
  "trace cfg low_thr high_thr ih s [] = [s]"
| "trace cfg low_thr high_thr ih s (p # ps) =
     s # charge cfg low_thr ih p s
       # trace cfg low_thr high_thr ih (row_step cfg low_thr high_thr ih p s) ps"

definition backtest_trace :: "frame \<Rightarrow> config \<Rightarrow> sim_state list" where
  "backtest_trace df cfg =
     (let sorted_df = df\<lparr>rows := sort_key timestamp (rows df)\<rparr>;
          prices = map price (rows sorted_df)
      in trace cfg (series_quantile prices (low_quantile cfg)) (series_quantile prices (high_quantile cfg))
           (estimate_interval_hours sorted_df) init_state prices)"

section \<open>Summary statistics and spike detection (analysis.py)\<close>

text \<open>\<open>Series.mean()\<close> and \<open>Series.std(ddof=0)\<close>, the population standard deviation.\<close>

definition series_mean :: "real list \<Rightarrow> real" where
  "series_mean xs = sum_list xs / real (length xs)"

definition series_std :: "real list \<Rightarrow> real" where
  "series_std xs =
     sqrt (sum_list (map (\<lambda>x. (x - series_mean xs)\<^sup>2) xs) / real (length xs))"

text \<open>\<open>Series.dropna()\<close> on a column with missing values.\<close>

definition dropna :: "real option list \<Rightarrow> real list" where
  "dropna vs = map the (filter (\<lambda>v. v \<noteq> None) vs)"

text \<open>
  The returned \<open>dict[str, float]\<close> is a map from keys to values. The test
  \<open>if summary["mean_price"]\<close> is the truth value of a float: it holds when the mean is
  not zero.
\<close>

definition compute_summary :: "frame \<Rightarrow> error + (string \<rightharpoonup> real)" where
  "compute_summary df =
     (if rows df = [] then Inl EmptySummaryData
      else
        (let price_col = map price (rows df);
             summary = [''count'' \<mapsto> real (length price_col),
                        ''mean_price'' \<mapsto> series_mean price_col,
                        ''median_price'' \<mapsto> series_median price_col,
                        ''min_price'' \<mapsto> Min (set price_col),
                        ''max_price'' \<mapsto> Max (set price_col),
                        ''std_price'' \<mapsto> series_std price_col];
             summary2 =
               (if the (summary ''mean_price'') \<noteq> 0
                then summary(''coeff_var'' \<mapsto>
                       the (summary ''std_price'') / the (summary ''mean_price''))
                else summary);
             summary3 =
               (if has_demand df then
                  (let demand_col = dropna (map demand (rows df))
                   in if demand_col \<noteq> [] then
                        summary2(''mean_demand'' \<mapsto> series_mean demand_col,
                                 ''max_demand'' \<mapsto> Max (set demand_col))
                      else summary2)
                else summary2)
         in Inr summary3))"

text \<open>
  \<open>detect_spikes(df, threshold, quantile)\<close>: both criteria are optional values; the
  default \<open>quantile=0.95\<close> of the signature is supplied by the caller. The events frame
  keeps the columns and zone of \<open>df\<close> and the rows that pass the filter, in their order.
\<close>

definition detect_spikes ::
  "frame \<Rightarrow> real option \<Rightarrow> real option \<Rightarrow> error + (frame \<times> (string \<rightharpoonup> real))" where
  "detect_spikes df threshold quantile =
     (if rows df = [] then Inl EmptySpikeData
      else if threshold = None \<and> quantile = None then Inl MissingCriterion
      else
        (case (case threshold of
                 Some c \<Rightarrow> Inr c
               | None \<Rightarrow>
                   (case quantile of
                      None \<Rightarrow> Inl QuantileOutOfRange
                    | Some q \<Rightarrow>
                        if \<not> (0 \<le> q \<and> q \<le> 1) then Inl QuantileOutOfRange
                        else Inr (series_quantile (map price (rows df)) q))) of
           Inl e \<Rightarrow> Inl e
         | Inr cutoff \<Rightarrow>
             (let events = filter (\<lambda>r. price r \<ge> cutoff) (rows df);
                  stats = [''cutoff'' \<mapsto> cutoff, ''spike_count'' \<mapsto> real (length events)];
                  stats2 =
                    (if events \<noteq> [] then
                       stats(''max_spike'' \<mapsto> Max (set (map price events)),
                             ''mean_spike'' \<mapsto> series_mean (map price events))
                     else stats)
              in Inr (df\<lparr>rows := events\<rparr>, stats2))))"

section \<open>Loading and merging sources (data\_loader.py)\<close>







definition DEFAULT_ALIASES :: "string \<Rightarrow> string list" where
  "DEFAULT_ALIASES target =
     (if target = ''timestamp'' then [''timestamp'', ''datetime'', ''settlementdate'', ''trading_interval'']
      else if target = ''region'' then [''region'', ''regionid'']
      else if target = ''price'' then [''price'', ''rrp'']
      else if target = ''demand'' then [''demand'', ''totaldemand'', ''total_demand'', ''demandmw'']
      else [])"

text \<open>
  \<open>str.lower()\<close> on ASCII text: the letters A to Z (codes 65 to 90) move up by 32,
  which sets the bit of value 32 (it is clear in all of them).
\<close>

definition lower_char :: "char \<Rightarrow> char" where
  "lower_char c =
     (let n = (of_char c :: nat)
      in if 65 \<le> n \<and> n \<le> 90
         then Char (digit0 c) (digit1 c) (digit2 c) (digit3 c) (digit4 c) True (digit6 c) (digit7 c)
         else c)"

definition lower :: "string \<Rightarrow> string" where
  "lower s = map lower_char s"

text \<open>
  \<open>{c.lower(): c for c in columns}\<close>: a later column replaces an earlier one with the
  same lower-case form.
\<close>

definition normalized :: "string list \<Rightarrow> (string \<rightharpoonup> string)" where
  "normalized cols = foldl (\<lambda>m c. m(lower c \<mapsto> c)) Map.empty cols"

text \<open>The loop \<open>for alias in aliases\<close>: the first alias that is a key of the map wins.\<close>

fun scan_aliases :: "(string \<rightharpoonup> string) \<Rightarrow> string list \<Rightarrow> string option" where
  "scan_aliases nmap [] = None"
| "scan_aliases nmap (alias # aliases) =
     (case nmap alias of Some c \<Rightarrow> Some c | None \<Rightarrow> scan_aliases nmap aliases)"

text \<open>
  \<open>_resolve_column(columns, target, overrides)\<close>. The test
  \<open>overrides and target in overrides\<close> holds exactly when a mapping is given and has the
  key \<open>target\<close> (an empty mapping has no key).
\<close>

definition resolve_column ::
  "string list \<Rightarrow> string \<Rightarrow> (string \<rightharpoonup> string) option \<Rightarrow> error + string option" where
  "resolve_column cols target overrides =
     (case (case overrides of None \<Rightarrow> None | Some m \<Rightarrow> m target) of
        Some override \<Rightarrow>
          if override \<in> set cols then Inr (Some override)
          else Inl (OverrideNotFound target override)
      | None \<Rightarrow> Inr (scan_aliases (normalized cols) (DEFAULT_ALIASES target)))"













section \<open>Predicates and example inputs used in the statements\<close>


text \<open>Two runs that differ in efficiency only: same charge, same cost, ordered revenue.\<close>

definition profit_dominated :: "sim_state \<Rightarrow> sim_state \<Rightarrow> bool" where
  "profit_dominated s1 s2 \<longleftrightarrow>
     soc s1 = soc s2 \<and> cost s1 = cost s2 \<and> revenue s1 \<le> revenue s2"

text \<open>The hourly series of tests/test\_battery\_strategy.py and the default parameters.\<close>

definition df_hourly :: frame where
  "df_hourly = \<lparr>tz = Some ''UTC'', has_demand = False, rows =
     [\<lparr>timestamp = 0, region = ''VIC1'', price = 20, demand = None\<rparr>,
      \<lparr>timestamp = 3600000000000, region = ''VIC1'', price = 100, demand = None\<rparr>,
      \<lparr>timestamp = 7200000000000, region = ''VIC1'', price = 200, demand = None\<rparr>,
      \<lparr>timestamp = 10800000000000, region = ''VIC1'', price = 50, demand = None\<rparr>]\<rparr>"

definition cfg_default :: config where
  "cfg_default = \<lparr>low_quantile = 1/4, high_quantile = 3/4, round_trip_efficiency = 9/10,
     capacity_mwh = 1, power_mw = 1\<rparr>"

text \<open>A frame of one row, and one of two rows with negative prices.\<close>

definition df_single :: frame where
  "df_single = \<lparr>tz = Some ''UTC'', has_demand = False, rows =
     [\<lparr>timestamp = 0, region = ''VIC1'', price = 20, demand = None\<rparr>]\<rparr>"

definition df_negative :: frame where
  "df_negative = \<lparr>tz = Some ''UTC'', has_demand = False, rows =
     [\<lparr>timestamp = 0, region = ''SA1'', price = -100, demand = None\<rparr>,
      \<lparr>timestamp = 3600000000000, region = ''SA1'', price = -50, demand = None\<rparr>]\<rparr>"

text \<open>The default parameters with a negative capacity, and with no power.\<close>

definition cfg_negative_capacity :: config where
  "cfg_negative_capacity = \<lparr>low_quantile = 1/4, high_quantile = 3/4,
     round_trip_efficiency = 9/10, capacity_mwh = -1, power_mw = 1\<rparr>"


text \<open>The frame of tests/test\_analysis.py, with a demand column.\<close>

definition df_spikes :: frame where
  "df_spikes = \<lparr>tz = Some ''UTC'', has_demand = True, rows =
     [\<lparr>timestamp = 0, region = ''VIC1'', price = 50, demand = Some 1000\<rparr>,
      \<lparr>timestamp = 3600000000000, region = ''VIC1'', price = 200, demand = Some 1200\<rparr>,
      \<lparr>timestamp = 7200000000000, region = ''NSW1'', price = 100, demand = Some 900\<rparr>,
      \<lparr>timestamp = 10800000000000, region = ''NSW1'', price = 400, demand = Some 1500\<rparr>]\<rparr>"




section \<open>Properties of the battery backtest\<close>

subsection \<open>The run and its trace\<close>

lemma trace_nonempty: "trace cfg lo hi ih s ps \<noteq> []"
  by (cases ps) auto

lemma hd_trace: "hd (trace cfg lo hi ih s ps) = s"
  by (cases ps) auto

lemma last_trace: "last (trace cfg lo hi ih s ps) = simulate cfg lo hi ih s ps"
  by (induction ps arbitrary: s) (auto simp: trace_nonempty)


text \<open>A run on valid input passes the three checks and returns the assembled result.\<close>

lemma battery_backtest_valid:
  assumes "rows df \<noteq> []"
    and "0 < round_trip_efficiency cfg" and "round_trip_efficiency cfg \<le> 1"
    and "0 \<le> low_quantile cfg" and "low_quantile cfg < high_quantile cfg"
    and "high_quantile cfg \<le> 1"
    and "sorted_prices df = ps"
    and "series_quantile ps (low_quantile cfg) = lo"
    and "series_quantile ps (high_quantile cfg) = hi"
    and "estimate_interval_hours (df\<lparr>rows := sort_key timestamp (rows df)\<rparr>) = ih"
    and "simulate cfg lo hi ih init_state ps = s"
  shows "battery_backtest df cfg =
     Inr \<lparr>total_profit = revenue s - cost s,
          charge_events = n_charge_events s,
          discharge_events = n_discharge_events s,
          cycles = min (n_charge_events s) (n_discharge_events s),
          energy_from_grid_mwh = energy_from_grid s,
          energy_to_grid_mwh = energy_to_grid s,
          low_threshold = lo,
          high_threshold = hi,
          interval_hours = ih\<rparr>"
  using assms by (simp add: battery_backtest_def sorted_prices_def Let_def)

lemma backtest_trace_eq:
  assumes "sorted_prices df = ps"
    and "series_quantile ps (low_quantile cfg) = lo"
    and "series_quantile ps (high_quantile cfg) = hi"
    and "estimate_interval_hours (df\<lparr>rows := sort_key timestamp (rows df)\<rparr>) = ih"
  shows "backtest_trace df cfg = trace cfg lo hi ih init_state ps"
  using assms by (simp add: backtest_trace_def sorted_prices_def Let_def)

subsection \<open>State of charge\<close>

lemma charge_soc_bounds:
  "0 \<le> soc s \<Longrightarrow> soc s \<le> capacity_mwh cfg \<Longrightarrow>
   0 \<le> soc (charge cfg lo ih p s) \<and> soc (charge cfg lo ih p s) \<le> capacity_mwh cfg"
  by (auto simp: charge_def Let_def min_def)

lemma discharge_soc_bounds:
  "0 \<le> soc s \<Longrightarrow> soc s \<le> capacity_mwh cfg \<Longrightarrow>
   0 \<le> soc (discharge cfg hi ih p s) \<and> soc (discharge cfg hi ih p s) \<le> capacity_mwh cfg"
  by (auto simp: discharge_def Let_def min_def)

lemma trace_soc_bounds:
  "0 \<le> soc s \<Longrightarrow> soc s \<le> capacity_mwh cfg \<Longrightarrow> t \<in> set (trace cfg lo hi ih s ps) \<Longrightarrow>
   0 \<le> soc t \<and> soc t \<le> capacity_mwh cfg"
proof (induction ps arbitrary: s)
  case Nil
  then show ?case by simp
next
  case (Cons p ps)
  have c: "0 \<le> soc (charge cfg lo ih p s) \<and> soc (charge cfg lo ih p s) \<le> capacity_mwh cfg"
    using Cons.prems(1,2) by (rule charge_soc_bounds)
  then have d: "0 \<le> soc (row_step cfg lo hi ih p s)
      \<and> soc (row_step cfg lo hi ih p s) \<le> capacity_mwh cfg"
    unfolding row_step_def using discharge_soc_bounds by blast
  from Cons.prems(3) consider "t = s" | "t = charge cfg lo ih p s"
    | "t \<in> set (trace cfg lo hi ih (row_step cfg lo hi ih p s) ps)" by auto
  then show ?case
  proof cases
    case 1 then show ?thesis using Cons.prems by simp
  next
    case 2 then show ?thesis using c by simp
  next
    case 3 then show ?thesis using Cons.IH d by blast
  qed
qed



subsection \<open>Energy accounting\<close>




subsection \<open>Two efficiencies\<close>

lemma charge_dominated:
  "profit_dominated s1 s2 \<Longrightarrow>
   profit_dominated (charge (cfg\<lparr>round_trip_efficiency := e1\<rparr>) lo ih p s1)
                    (charge (cfg\<lparr>round_trip_efficiency := e2\<rparr>) lo ih p s2)"
  by (simp add: profit_dominated_def charge_def Let_def)

lemma discharge_dominated:
  assumes "profit_dominated s1 s2" and "e1 \<le> e2" and "0 \<le> hi"
  shows "profit_dominated (discharge (cfg\<lparr>round_trip_efficiency := e1\<rparr>) hi ih p s1)
                          (discharge (cfg\<lparr>round_trip_efficiency := e2\<rparr>) hi ih p s2)"
proof (cases "p \<ge> hi \<and> soc s2 > 0 \<and> min (power_mw cfg * ih) (soc s2) > 0")
  case True
  let ?a = "min (power_mw cfg * ih) (soc s2)"
  have "0 \<le> p" using True assms(3) by linarith
  then have "p * (?a * e1) \<le> p * (?a * e2)"
    using True assms(2) by (simp add: mult_left_mono)
  then show ?thesis
    using True assms(1) by (simp add: profit_dominated_def discharge_def Let_def)
next
  case False
  then show ?thesis
    using assms(1) by (auto simp: profit_dominated_def discharge_def Let_def)
qed

lemma simulate_dominated:
  assumes "e1 \<le> e2" and "0 \<le> hi"
  shows "profit_dominated s1 s2 \<Longrightarrow>
     profit_dominated (simulate (cfg\<lparr>round_trip_efficiency := e1\<rparr>) lo hi ih s1 ps)
                      (simulate (cfg\<lparr>round_trip_efficiency := e2\<rparr>) lo hi ih s2 ps)"
proof (induction ps arbitrary: s1 s2)
  case Nil
  then show ?case by simp
next
  case (Cons p ps)
  have "profit_dominated (row_step (cfg\<lparr>round_trip_efficiency := e1\<rparr>) lo hi ih p s1)
                         (row_step (cfg\<lparr>round_trip_efficiency := e2\<rparr>) lo hi ih p s2)"
    unfolding row_step_def
    by (rule discharge_dominated [OF charge_dominated [OF Cons.prems] assms])
  then show ?case using Cons.IH by simp
qed

subsection \<open>The example runs\<close>

lemma sorted_prices_hourly: "sorted_prices df_hourly = [20, 100, 200, 50]"
  by (simp add: sorted_prices_def df_hourly_def)

lemma quantile_hourly_low: "series_quantile [20, 100, 200, 50] (1/4) = 85/2"
  by (simp add: series_quantile_def)

lemma quantile_hourly_high: "series_quantile [20, 100, 200, 50] (3/4) = 125"
  by (simp add: series_quantile_def)

lemma interval_hourly:
  "estimate_interval_hours (df_hourly\<lparr>rows := sort_key timestamp (rows df_hourly)\<rparr>) = 1"
  by (simp add: estimate_interval_hours_def df_hourly_def series_median_def total_seconds_def)

lemma sorted_prices_single: "sorted_prices df_single = [20]"
  by (simp add: sorted_prices_def df_single_def)

lemma quantile_single: "series_quantile [20] q = 20"
  by (simp add: series_quantile_def)

lemma interval_single:
  "estimate_interval_hours (df_single\<lparr>rows := sort_key timestamp (rows df_single)\<rparr>) = 1"
  by (simp add: estimate_interval_hours_def df_single_def)

lemma sorted_prices_negative: "sorted_prices df_negative = [-100, -50]"
  by (simp add: sorted_prices_def df_negative_def)

lemma quantile_negative_low: "series_quantile [-100, -50] (1/4) = -175/2"
  by (simp add: series_quantile_def)

lemma quantile_negative_high: "series_quantile [-100, -50] (3/4) = -125/2"
  by (simp add: series_quantile_def)

lemma interval_negative:
  "estimate_interval_hours (df_negative\<lparr>rows := sort_key timestamp (rows df_negative)\<rparr>) = 1"
  by (simp add: estimate_interval_hours_def df_negative_def series_median_def total_seconds_def)


lemma cfg_default_fields:
  "low_quantile cfg_default = 1/4" "high_quantile cfg_default = 3/4"
  "round_trip_efficiency cfg_default = 9/10" "capacity_mwh cfg_default = 1"
  "power_mw cfg_default = 1"
  by (simp_all add: cfg_default_def)

lemma rows_hourly_nonempty: "rows df_hourly \<noteq> []"
  by (simp add: df_hourly_def)


lemma backtest_result_of_trace:
  assumes "battery_backtest df cfg = Inr r"
  shows "total_profit r = revenue (last (backtest_trace df cfg)) - cost (last (backtest_trace df cfg))
       \<and> charge_events r = n_charge_events (last (backtest_trace df cfg))
       \<and> discharge_events r = n_discharge_events (last (backtest_trace df cfg))
       \<and> energy_from_grid_mwh r = energy_from_grid (last (backtest_trace df cfg))
       \<and> energy_to_grid_mwh r = energy_to_grid (last (backtest_trace df cfg))"
proof -
  let ?ps = "sorted_prices df"
  let ?lo = "series_quantile ?ps (low_quantile cfg)"
  let ?hi = "series_quantile ?ps (high_quantile cfg)"
  let ?ih = "estimate_interval_hours (df\<lparr>rows := sort_key timestamp (rows df)\<rparr>)"
  let ?s = "simulate cfg ?lo ?hi ?ih init_state ?ps"
  have t: "last (backtest_trace df cfg) = ?s"
    by (simp add: backtest_trace_eq [OF refl refl refl refl] last_trace)
  have v: "rows df \<noteq> []" "0 < round_trip_efficiency cfg" "round_trip_efficiency cfg \<le> 1"
    "0 \<le> low_quantile cfg" "low_quantile cfg < high_quantile cfg" "high_quantile cfg \<le> 1"
    using assms by (auto simp: battery_backtest_def split: if_splits)
  have "battery_backtest df cfg = Inr \<lparr>total_profit = revenue ?s - cost ?s,
          charge_events = n_charge_events ?s,
          discharge_events = n_discharge_events ?s,
          cycles = min (n_charge_events ?s) (n_discharge_events ?s),
          energy_from_grid_mwh = energy_from_grid ?s,
          energy_to_grid_mwh = energy_to_grid ?s,
          low_threshold = ?lo, high_threshold = ?hi, interval_hours = ?ih\<rparr>"
    by (rule battery_backtest_valid [OF v refl refl refl refl refl])
  with assms show ?thesis unfolding t by auto
qed

text \<open>
  Claim C3, as amended. When \<open>capacity_mwh\<close> is not negative, the state of charge is
  within \<open>[0, capacity_mwh]\<close> at every point of a run of \<open>battery_backtest\<close>: it starts
  at 0, every state the loop passes through (before a row, between the two checks of a
  row, after a row) is within the bounds, and each charge step and each discharge step
  keeps the bounds. The last state of the trace is the one the returned energy totals are
  read from. The source does not check \<open>capacity_mwh\<close>; for a negative capacity the
  initial state of charge 0 is already above it.
\<close>

theorem soc_within_capacity:
  assumes "0 \<le> capacity_mwh cfg"
  shows "soc (hd (backtest_trace df cfg)) = 0
       \<and> (\<forall>s \<in> set (backtest_trace df cfg). 0 \<le> soc s \<and> soc s \<le> capacity_mwh cfg)
       \<and> (\<forall>lo hi ih p s. 0 \<le> soc s \<and> soc s \<le> capacity_mwh cfg \<longrightarrow>
              0 \<le> soc (charge cfg lo ih p s) \<and> soc (charge cfg lo ih p s) \<le> capacity_mwh cfg
            \<and> 0 \<le> soc (discharge cfg hi ih p s) \<and> soc (discharge cfg hi ih p s) \<le> capacity_mwh cfg)
       \<and> (\<forall>r. battery_backtest df cfg = Inr r \<longrightarrow>
              energy_from_grid_mwh r = energy_from_grid (last (backtest_trace df cfg))
            \<and> energy_to_grid_mwh r = energy_to_grid (last (backtest_trace df cfg)))"
proof (intro conjI)
  show "soc (hd (backtest_trace df cfg)) = 0"
    by (simp add: backtest_trace_def Let_def hd_trace init_state_def)
  show "\<forall>s \<in> set (backtest_trace df cfg). 0 \<le> soc s \<and> soc s \<le> capacity_mwh cfg"
  proof
    fix s assume "s \<in> set (backtest_trace df cfg)"
    then have "s \<in> set (trace cfg (series_quantile (sorted_prices df) (low_quantile cfg))
        (series_quantile (sorted_prices df) (high_quantile cfg))
        (estimate_interval_hours (df\<lparr>rows := sort_key timestamp (rows df)\<rparr>))
        init_state (sorted_prices df))"
      by (simp add: backtest_trace_eq [OF refl refl refl refl])
    moreover have "0 \<le> soc init_state" "soc init_state \<le> capacity_mwh cfg"
      using assms by (simp_all add: init_state_def)
    ultimately show "0 \<le> soc s \<and> soc s \<le> capacity_mwh cfg"
      using trace_soc_bounds by blast
  qed
  show "\<forall>lo hi ih p s. 0 \<le> soc s \<and> soc s \<le> capacity_mwh cfg \<longrightarrow>
              0 \<le> soc (charge cfg lo ih p s) \<and> soc (charge cfg lo ih p s) \<le> capacity_mwh cfg
            \<and> 0 \<le> soc (discharge cfg hi ih p s) \<and> soc (discharge cfg hi ih p s) \<le> capacity_mwh cfg"
    using charge_soc_bounds discharge_soc_bounds by blast
  show "\<forall>r. battery_backtest df cfg = Inr r \<longrightarrow>
              energy_from_grid_mwh r = energy_from_grid (last (backtest_trace df cfg))
            \<and> energy_to_grid_mwh r = energy_to_grid (last (backtest_trace df cfg))"
    using backtest_result_of_trace by blast
qed

lemma trace_hourly:
  "map soc (trace cfg_default (85/2) 125 1 init_state [20, 100, 200, 50]) = [0, 1, 1, 1, 1, 1, 0, 0, 0]"
  by (simp add: row_step_def charge_def discharge_def init_state_def cfg_default_def)

lemma backtest_trace_hourly:
  "backtest_trace df_hourly cfg_default = trace cfg_default (85/2) 125 1 init_state [20, 100, 200, 50]"
  by (rule backtest_trace_eq)
    (simp_all only: cfg_default_fields sorted_prices_hourly quantile_hourly_low
       quantile_hourly_high interval_hourly)

text \<open>The theorem at the hourly test series with the default parameters.\<close>

theorem soc_within_capacity_witness:
  "0 \<le> capacity_mwh cfg_default
   \<and> map soc (backtest_trace df_hourly cfg_default) = [0, 1, 1, 1, 1, 1, 0, 0, 0]
   \<and> list_all (\<lambda>s. 0 \<le> soc s \<and> soc s \<le> capacity_mwh cfg_default)
        (backtest_trace df_hourly cfg_default)
   \<and> 0 \<le> soc init_state \<and> soc init_state \<le> capacity_mwh cfg_default
   \<and> 0 \<le> soc (charge cfg_default (85/2) 1 20 init_state)
   \<and> soc (charge cfg_default (85/2) 1 20 init_state) \<le> capacity_mwh cfg_default
   \<and> soc (charge cfg_default (85/2) 1 20 init_state) = 1"
proof -
  have c: "0 \<le> capacity_mwh cfg_default" by (simp add: cfg_default_fields)
  note inst = soc_within_capacity [OF c, of df_hourly]
  have "\<forall>s \<in> set (backtest_trace df_hourly cfg_default).
      0 \<le> soc s \<and> soc s \<le> capacity_mwh cfg_default"
    using inst by blast
  then have l: "list_all (\<lambda>s. 0 \<le> soc s \<and> soc s \<le> capacity_mwh cfg_default)
        (backtest_trace df_hourly cfg_default)"
    by (simp only: list_all_iff)
  have m: "map soc (backtest_trace df_hourly cfg_default) = [0, 1, 1, 1, 1, 1, 0, 0, 0]"
    by (simp only: backtest_trace_hourly trace_hourly)
  have i: "0 \<le> soc init_state" "soc init_state \<le> capacity_mwh cfg_default"
    by (simp_all add: init_state_def cfg_default_fields)
  have step: "0 \<le> soc (charge cfg_default (85/2) 1 20 init_state)
      \<and> soc (charge cfg_default (85/2) 1 20 init_state) \<le> capacity_mwh cfg_default"
    using inst i by blast
  have v: "soc (charge cfg_default (85/2) 1 20 init_state) = 1"
    by (simp add: charge_def init_state_def cfg_default_fields)
  show ?thesis using c l m i step v by (intro conjI) simp_all
qed

lemma rows_single_nonempty: "rows df_single \<noteq> []"
  by (simp add: df_single_def)

lemma cfg_negative_capacity_fields:
  "low_quantile cfg_negative_capacity = 1/4" "high_quantile cfg_negative_capacity = 3/4"
  "round_trip_efficiency cfg_negative_capacity = 9/10"
  "capacity_mwh cfg_negative_capacity = -1" "power_mw cfg_negative_capacity = 1"
  by (simp_all add: cfg_negative_capacity_def)


lemma simulate_single_idle:
  "capacity_mwh cfg \<le> 0 \<or> power_mw cfg = 0 \<Longrightarrow> simulate cfg 20 20 1 init_state [20] = init_state"
  by (auto simp: row_step_def charge_def discharge_def init_state_def)

lemma backtest_single_idle:
  assumes "capacity_mwh cfg \<le> 0 \<or> power_mw cfg = 0"
    and "low_quantile cfg = 1/4" and "high_quantile cfg = 3/4"
    and "round_trip_efficiency cfg = 9/10"
  shows "battery_backtest df_single cfg =
     Inr \<lparr>total_profit = 0, charge_events = 0, discharge_events = 0, cycles = 0,
          energy_from_grid_mwh = 0, energy_to_grid_mwh = 0,
          low_threshold = 20, high_threshold = 20, interval_hours = 1\<rparr>"
proof -
  have v: "0 < round_trip_efficiency cfg" "round_trip_efficiency cfg \<le> 1"
    "0 \<le> low_quantile cfg" "low_quantile cfg < high_quantile cfg" "high_quantile cfg \<le> 1"
    using assms by simp_all
  have "battery_backtest df_single cfg =
     Inr \<lparr>total_profit = revenue init_state - cost init_state,
          charge_events = n_charge_events init_state,
          discharge_events = n_discharge_events init_state,
          cycles = min (n_charge_events init_state) (n_discharge_events init_state),
          energy_from_grid_mwh = energy_from_grid init_state,
          energy_to_grid_mwh = energy_to_grid init_state,
          low_threshold = 20, high_threshold = 20, interval_hours = 1\<rparr>"
    by (rule battery_backtest_valid [OF rows_single_nonempty v sorted_prices_single
          quantile_single quantile_single interval_single simulate_single_idle [OF assms(1)]])
  then show ?thesis by (simp add: init_state_def)
qed

text \<open>
  Claim C3 as stated fails for a negative capacity: with \<open>capacity_mwh = -1\<close> the run on
  a one-row frame is accepted and returns a result, and its initial state of charge 0 is
  not within \<open>[0, -1]\<close>.
\<close>

theorem soc_within_capacity_counterexample:
  "battery_backtest df_single cfg_negative_capacity =
     Inr \<lparr>total_profit = 0, charge_events = 0, discharge_events = 0, cycles = 0,
          energy_from_grid_mwh = 0, energy_to_grid_mwh = 0,
          low_threshold = 20, high_threshold = 20, interval_hours = 1\<rparr>
   \<and> \<not> (\<forall>s \<in> set (backtest_trace df_single cfg_negative_capacity).
           0 \<le> soc s \<and> soc s \<le> capacity_mwh cfg_negative_capacity)"
proof
  show "battery_backtest df_single cfg_negative_capacity =
     Inr \<lparr>total_profit = 0, charge_events = 0, discharge_events = 0, cycles = 0,
          energy_from_grid_mwh = 0, energy_to_grid_mwh = 0,
          low_threshold = 20, high_threshold = 20, interval_hours = 1\<rparr>"
    by (rule backtest_single_idle) (simp_all add: cfg_negative_capacity_fields)
  have "init_state \<in> set (backtest_trace df_single cfg_negative_capacity)"
    by (simp add: backtest_trace_def Let_def df_single_def)
  moreover have "\<not> soc init_state \<le> capacity_mwh cfg_negative_capacity"
    by (simp add: init_state_def cfg_negative_capacity_fields)
  ultimately show "\<not> (\<forall>s \<in> set (backtest_trace df_single cfg_negative_capacity).
           0 \<le> soc s \<and> soc s \<le> capacity_mwh cfg_negative_capacity)"
    by blast
qed








lemma valid_default:
  "0 < round_trip_efficiency cfg_default" "round_trip_efficiency cfg_default \<le> 1"
  "0 \<le> low_quantile cfg_default" "low_quantile cfg_default < high_quantile cfg_default"
  "high_quantile cfg_default \<le> 1"
  by (simp_all add: cfg_default_fields)



text \<open>
  Claim C2, as amended. For every non-empty table and every two valid configurations that
  differ only in their efficiencies \<open>e1 \<le> e2\<close> (both in (0, 1]), if the high threshold
  (the price at \<open>high_quantile\<close>) is not negative, then both runs return a result and the
  total profit with \<open>e2\<close> is at least the total profit with \<open>e1\<close>.
\<close>

theorem efficiency_monotone:
  assumes "rows df \<noteq> []"
    and "0 < e1" and "e1 \<le> e2" and "e2 \<le> 1"
    and "0 \<le> low_quantile cfg" and "low_quantile cfg < high_quantile cfg"
    and "high_quantile cfg \<le> 1"
    and "0 \<le> series_quantile (sorted_prices df) (high_quantile cfg)"
  shows "\<exists>r1 r2. battery_backtest df (cfg\<lparr>round_trip_efficiency := e1\<rparr>) = Inr r1
           \<and> battery_backtest df (cfg\<lparr>round_trip_efficiency := e2\<rparr>) = Inr r2
           \<and> high_threshold r1 = series_quantile (sorted_prices df) (high_quantile cfg)
           \<and> high_threshold r2 = series_quantile (sorted_prices df) (high_quantile cfg)
           \<and> total_profit r1 \<le> total_profit r2"
proof -
  let ?c1 = "cfg\<lparr>round_trip_efficiency := e1\<rparr>" and ?c2 = "cfg\<lparr>round_trip_efficiency := e2\<rparr>"
  let ?ps = "sorted_prices df"
  let ?lo = "series_quantile ?ps (low_quantile cfg)"
  let ?hi = "series_quantile ?ps (high_quantile cfg)"
  let ?ih = "estimate_interval_hours (df\<lparr>rows := sort_key timestamp (rows df)\<rparr>)"
  let ?s1 = "simulate ?c1 ?lo ?hi ?ih init_state ?ps"
  let ?s2 = "simulate ?c2 ?lo ?hi ?ih init_state ?ps"
  have dom: "profit_dominated ?s1 ?s2"
    by (rule simulate_dominated [OF assms(3) assms(8)]) (simp add: profit_dominated_def)
  have v1: "0 < round_trip_efficiency ?c1" "round_trip_efficiency ?c1 \<le> 1"
    "0 \<le> low_quantile ?c1" "low_quantile ?c1 < high_quantile ?c1" "high_quantile ?c1 \<le> 1"
    using assms by simp_all
  have v2: "0 < round_trip_efficiency ?c2" "round_trip_efficiency ?c2 \<le> 1"
    "0 \<le> low_quantile ?c2" "low_quantile ?c2 < high_quantile ?c2" "high_quantile ?c2 \<le> 1"
    using assms by simp_all
  have q1: "series_quantile ?ps (low_quantile ?c1) = ?lo"
    "series_quantile ?ps (high_quantile ?c1) = ?hi" by simp_all
  have q2: "series_quantile ?ps (low_quantile ?c2) = ?lo"
    "series_quantile ?ps (high_quantile ?c2) = ?hi" by simp_all
  note b1 = battery_backtest_valid [OF assms(1) v1 refl q1 refl refl]
  note b2 = battery_backtest_valid [OF assms(1) v2 refl q2 refl refl]
  have "revenue ?s1 - cost ?s1 \<le> revenue ?s2 - cost ?s2"
    using dom by (simp add: profit_dominated_def)
  then show ?thesis unfolding b1 b2 by simp
qed

lemma simulate_hourly_eff:
  "simulate (cfg_default\<lparr>round_trip_efficiency := e\<rparr>) (85/2) 125 1 init_state [20, 100, 200, 50] =
     \<lparr>soc = 0, cost = 20, revenue = 200 * e, n_charge_events = 1, n_discharge_events = 1,
      energy_from_grid = 1, energy_to_grid = e\<rparr>"
  by (simp add: row_step_def charge_def discharge_def init_state_def cfg_default_def)

lemma simulate_negative_eff:
  "simulate (cfg_default\<lparr>round_trip_efficiency := e\<rparr>) (-175/2) (-125/2) 1 init_state [-100, -50] =
     \<lparr>soc = 0, cost = -100, revenue = -50 * e, n_charge_events = 1, n_discharge_events = 1,
      energy_from_grid = 1, energy_to_grid = e\<rparr>"
  by (simp add: row_step_def charge_def discharge_def init_state_def cfg_default_def)

lemma rows_negative_nonempty: "rows df_negative \<noteq> []"
  by (simp add: df_negative_def)

lemma backtest_negative_eff:
  assumes "0 < e" and "e \<le> 1"
  shows "battery_backtest df_negative (cfg_default\<lparr>round_trip_efficiency := e\<rparr>) =
     Inr \<lparr>total_profit = 100 - 50 * e, charge_events = 1, discharge_events = 1, cycles = 1,
          energy_from_grid_mwh = 1, energy_to_grid_mwh = e,
          low_threshold = -175/2, high_threshold = -125/2, interval_hours = 1\<rparr>"
proof -
  let ?c = "cfg_default\<lparr>round_trip_efficiency := e\<rparr>"
  have v: "0 < round_trip_efficiency ?c" "round_trip_efficiency ?c \<le> 1"
    "0 \<le> low_quantile ?c" "low_quantile ?c < high_quantile ?c" "high_quantile ?c \<le> 1"
    using assms by (simp_all add: cfg_default_fields)
  have q: "series_quantile [-100, -50] (low_quantile ?c) = -175/2"
    "series_quantile [-100, -50] (high_quantile ?c) = -125/2"
    by (simp_all add: cfg_default_fields quantile_negative_low quantile_negative_high)
  show ?thesis
    unfolding battery_backtest_valid [OF rows_negative_nonempty v sorted_prices_negative q
        interval_negative simulate_negative_eff]
    by simp
qed

text \<open>
  Claim C2 as stated fails when energy is sold at a negative price: on two rows with the
  prices -100 and -50 the battery charges at -100 and discharges at -50, so the profit is
  \<open>100 - 50 * e\<close>: 75 with efficiency 1/2 and 50 with efficiency 1.
\<close>

theorem efficiency_monotone_counterexample:
  "battery_backtest df_negative (cfg_default\<lparr>round_trip_efficiency := 1/2\<rparr>) =
     Inr \<lparr>total_profit = 75, charge_events = 1, discharge_events = 1, cycles = 1,
          energy_from_grid_mwh = 1, energy_to_grid_mwh = 1/2,
          low_threshold = -175/2, high_threshold = -125/2, interval_hours = 1\<rparr>
   \<and> battery_backtest df_negative (cfg_default\<lparr>round_trip_efficiency := 1\<rparr>) =
     Inr \<lparr>total_profit = 50, charge_events = 1, discharge_events = 1, cycles = 1,
          energy_from_grid_mwh = 1, energy_to_grid_mwh = 1,
          low_threshold = -175/2, high_threshold = -125/2, interval_hours = 1\<rparr>
   \<and> (1/2 :: real) \<le> 1 \<and> \<not> ((75::real) \<le> 50)"
  using backtest_negative_eff [of "1/2"] backtest_negative_eff [of 1] by simp

text \<open>The theorem at the hourly test series, with the efficiencies 1/2 and 9/10.\<close>

theorem efficiency_monotone_witness:
  "rows df_hourly \<noteq> [] \<and> (0::real) < 1/2 \<and> (1/2::real) \<le> 9/10 \<and> (9/10::real) \<le> 1
   \<and> 0 \<le> low_quantile cfg_default \<and> low_quantile cfg_default < high_quantile cfg_default
   \<and> high_quantile cfg_default \<le> 1
   \<and> 0 \<le> series_quantile (sorted_prices df_hourly) (high_quantile cfg_default)
   \<and> (\<exists>r1 r2. battery_backtest df_hourly (cfg_default\<lparr>round_trip_efficiency := 1/2\<rparr>) = Inr r1
           \<and> battery_backtest df_hourly (cfg_default\<lparr>round_trip_efficiency := 9/10\<rparr>) = Inr r2
           \<and> high_threshold r1 = 125 \<and> high_threshold r2 = 125
           \<and> total_profit r1 \<le> total_profit r2)"
proof -
  have q: "0 \<le> series_quantile (sorted_prices df_hourly) (high_quantile cfg_default)"
    by (simp add: sorted_prices_hourly cfg_default_fields quantile_hourly_high)
  have e: "(0::real) < 1/2" "(1/2::real) \<le> 9/10" "(9/10::real) \<le> 1" by simp_all
  have "\<exists>r1 r2. battery_backtest df_hourly (cfg_default\<lparr>round_trip_efficiency := 1/2\<rparr>) = Inr r1
           \<and> battery_backtest df_hourly (cfg_default\<lparr>round_trip_efficiency := 9/10\<rparr>) = Inr r2
           \<and> high_threshold r1 = 125 \<and> high_threshold r2 = 125
           \<and> total_profit r1 \<le> total_profit r2"
    using efficiency_monotone [OF rows_hourly_nonempty e valid_default(3,4,5) q]
    by (simp only: sorted_prices_hourly cfg_default_fields quantile_hourly_high)
  then show ?thesis
    using rows_hourly_nonempty e valid_default(3,4,5) q by (intro conjI)
qed

subsection \<open>Interval and thresholds\<close>

lemma series_diff_nonneg: "sorted xs \<Longrightarrow> d \<in> set (series_diff xs) \<Longrightarrow> 0 \<le> d"
  by (induction xs rule: series_diff.induct) auto

lemma series_median_nonneg:
  assumes "xs \<noteq> []" and "\<forall>x \<in> set xs. 0 \<le> x"
  shows "0 \<le> series_median xs"
proof -
  let ?s = "sort xs"
  have n: "0 < length ?s" using assms(1) by simp
  have nth: "0 \<le> ?s ! i" if "i < length ?s" for i
  proof -
    have "?s ! i \<in> set ?s" using that by (rule nth_mem)
    then show ?thesis using assms(2) by simp
  qed
  have a: "0 \<le> ?s ! (length ?s div 2)"
    using n by (intro nth) simp
  have b: "0 \<le> ?s ! (length ?s div 2 - 1)"
    using n by (intro nth) (simp add: less_imp_diff_less)
  show ?thesis
    using a b by (simp add: series_median_def Let_def)
qed

text \<open>
  Property X1: the interval length. For every table the interval that
  \<open>_estimate_interval_hours\<close> returns is positive: the gaps of the sorted timestamps are
  not negative, so their median is not negative, and a median of zero is replaced by 1.
  Hence with a positive \<open>power_mw\<close> the amount a charge may add is positive whenever the
  battery is not full, and the amount a discharge may take is positive whenever the
  battery is not empty: the two tests on the amounts in the loop can fail only for
  \<open>power_mw \<le> 0\<close>.
\<close>

theorem interval_hours_positive:
  "0 < estimate_interval_hours df
   \<and> (0 < power_mw cfg \<longrightarrow>
        (\<forall>s. soc s < capacity_mwh cfg \<longrightarrow>
              0 < min (power_mw cfg * estimate_interval_hours df) (capacity_mwh cfg - soc s))
      \<and> (\<forall>s. 0 < soc s \<longrightarrow> 0 < min (power_mw cfg * estimate_interval_hours df) (soc s)))"
proof -
  let ?deltas = "map total_seconds (series_diff (sort (map timestamp (rows df))))"
  have pos: "0 < estimate_interval_hours df"
  proof (cases "?deltas = []")
    case True
    then show ?thesis by (simp add: estimate_interval_hours_def)
  next
    case False
    have "\<forall>x \<in> set ?deltas. 0 \<le> x"
      using series_diff_nonneg [of "sort (map timestamp (rows df))"]
      by (auto simp: total_seconds_def)
    then have "0 \<le> series_median ?deltas"
      using False by (intro series_median_nonneg) simp_all
    then show ?thesis
      using False by (auto simp: estimate_interval_hours_def Let_def)
  qed
  then show ?thesis by (simp add: min_def)
qed

text \<open>The theorem at the hourly test series with the default parameters.\<close>

theorem interval_hours_positive_witness:
  "0 < estimate_interval_hours df_hourly
   \<and> 0 < power_mw cfg_default
   \<and> soc init_state < capacity_mwh cfg_default
   \<and> 0 < min (power_mw cfg_default * estimate_interval_hours df_hourly)
           (capacity_mwh cfg_default - soc init_state)
   \<and> 0 < soc (init_state\<lparr>soc := 1\<rparr>)
   \<and> 0 < min (power_mw cfg_default * estimate_interval_hours df_hourly)
           (soc (init_state\<lparr>soc := 1\<rparr>))"
proof -
  have p: "0 < power_mw cfg_default" by (simp add: cfg_default_fields)
  have a: "soc init_state < capacity_mwh cfg_default"
    by (simp add: init_state_def cfg_default_fields)
  have b: "0 < soc (init_state\<lparr>soc := 1\<rparr>)" by simp
  note inst = interval_hours_positive [of df_hourly cfg_default]
  have i: "0 < estimate_interval_hours df_hourly"
    by (rule conjunct1 [OF inst])
  have c: "0 < min (power_mw cfg_default * estimate_interval_hours df_hourly)
           (capacity_mwh cfg_default - soc init_state)"
    using inst p a by blast
  have d: "0 < min (power_mw cfg_default * estimate_interval_hours df_hourly)
           (soc (init_state\<lparr>soc := 1\<rparr>))"
    using inst p b by blast
  show ?thesis using i p a c b d by (intro conjI)
qed


lemma index_in_range:
  "(a::nat) \<le> n - 1 \<Longrightarrow> 0 < n \<Longrightarrow> a < n \<and> min (a + 1) (n - 1) < n"
  by arith

lemma series_quantile_nonneg:
  assumes "xs \<noteq> []" and "0 \<le> q" and "q \<le> 1" and "\<forall>x \<in> set xs. 0 \<le> x"
  shows "0 \<le> series_quantile xs q"
proof -
  let ?s = "sort xs"
  let ?n = "length ?s"
  let ?h = "real (?n - 1) * q"
  let ?lo = "nat \<lfloor>?h\<rfloor>"
  let ?hi = "min (?lo + 1) (?n - 1)"
  have n: "0 < ?n" using assms(1) by simp
  have h0: "0 \<le> ?h" using assms(2) by simp
  have h1: "?h \<le> real (?n - 1)" using assms(2,3) by (simp add: mult_left_le)
  have lo_le: "real ?lo \<le> ?h" using h0 by simp
  have frac1: "?h - real ?lo < 1" using h0 by linarith
  have "?lo \<le> ?n - 1"
  proof -
    have "real ?lo \<le> real (?n - 1)" using lo_le h1 by linarith
    then show ?thesis by simp
  qed
  then have lo: "?lo < ?n" and hi: "?hi < ?n"
    using index_in_range [of ?lo ?n] n by blast+
  have nth: "0 \<le> ?s ! i" if "i < ?n" for i
  proof -
    have "?s ! i \<in> set ?s" using that by (rule nth_mem)
    then show ?thesis using assms(4) by simp
  qed
  have a: "0 \<le> ?s ! ?lo" and b: "0 \<le> ?s ! ?hi"
    using lo hi by (auto intro: nth)
  define f where "f = ?h - real ?lo"
  have f: "0 \<le> f" "f < 1" using lo_le frac1 by (simp_all add: f_def)
  have "?s ! ?lo + f * (?s ! ?hi - ?s ! ?lo) = (1 - f) * ?s ! ?lo + f * ?s ! ?hi"
    by (simp add: algebra_simps)
  also have "0 \<le> \<dots>"
    using a b f by (intro add_nonneg_nonneg mult_nonneg_nonneg) simp_all
  finally have "0 \<le> ?s ! ?lo + f * (?s ! ?hi - ?s ! ?lo)" .
  then show ?thesis
    unfolding series_quantile_def Let_def f_def .
qed

text \<open>
  Property X2: thresholds of non-negative prices. On a non-empty table without a negative
  price, the price value at any quantile in [0, 1] is not negative; in particular the
  high threshold of the backtest is not negative there.
\<close>

theorem nonnegative_prices_threshold:
  assumes "rows df \<noteq> []" and "0 \<le> q" and "q \<le> 1"
    and "\<forall>r \<in> set (rows df). 0 \<le> price r"
  shows "0 \<le> series_quantile (sorted_prices df) q"
proof -
  have "length (sorted_prices df) = length (rows df)"
    by (simp add: sorted_prices_def)
  then have "sorted_prices df \<noteq> []"
    using assms(1) by auto
  moreover have "\<forall>x \<in> set (sorted_prices df). 0 \<le> x"
    using assms(4) by (auto simp: sorted_prices_def)
  ultimately show ?thesis
    using assms(2,3) by (intro series_quantile_nonneg)
qed

text \<open>The theorem at the hourly test series and the quantile 3/4.\<close>

theorem nonnegative_prices_threshold_witness:
  "rows df_hourly \<noteq> [] \<and> (0::real) \<le> 3/4 \<and> (3/4::real) \<le> 1
   \<and> list_all (\<lambda>r. 0 \<le> price r) (rows df_hourly)
   \<and> series_quantile (sorted_prices df_hourly) (3/4) = 125
   \<and> 0 \<le> series_quantile (sorted_prices df_hourly) (3/4)"
proof -
  have q: "(0::real) \<le> 3/4" "(3/4::real) \<le> 1" by simp_all
  have l: "list_all (\<lambda>r. 0 \<le> price r) (rows df_hourly)"
    by (simp add: df_hourly_def)
  then have b: "\<forall>r \<in> set (rows df_hourly). 0 \<le> price r"
    by (simp only: list_all_iff)
  have v: "series_quantile (sorted_prices df_hourly) (3/4) = 125"
    by (simp only: sorted_prices_hourly quantile_hourly_high)
  have t: "0 \<le> series_quantile (sorted_prices df_hourly) (3/4)"
    by (rule nonnegative_prices_threshold [OF rows_hourly_nonempty q b])
  show ?thesis using rows_hourly_nonempty q l v t by (intro conjI)
qed


section \<open>Properties of the analysis functions\<close>

text \<open>
  Claim C10. On every empty table (whatever its zone and columns) \<open>detect_spikes\<close> fails
  with the empty-dataset error, for every threshold and every quantile, given or not,
  valid or not: the check comes before any look at the criteria.
\<close>

theorem detect_spikes_empty:
  "detect_spikes (df\<lparr>rows := []\<rparr>) threshold quantile = Inl EmptySpikeData"
  by (simp add: detect_spikes_def)

lemma compute_summary_nonempty:
  assumes "rows df \<noteq> []"
  shows "\<exists>m. compute_summary df = Inr m
     \<and> m ''count'' = Some (real (length (rows df)))
     \<and> m ''mean_price'' = Some (series_mean (map price (rows df)))
     \<and> m ''median_price'' = Some (series_median (map price (rows df)))
     \<and> m ''min_price'' = Some (Min (set (map price (rows df))))
     \<and> m ''max_price'' = Some (Max (set (map price (rows df))))
     \<and> m ''std_price'' = Some (series_std (map price (rows df)))
     \<and> m ''coeff_var'' =
         (if series_mean (map price (rows df)) \<noteq> 0
          then Some (series_std (map price (rows df)) / series_mean (map price (rows df)))
          else None)"
  using assms by (simp add: compute_summary_def Let_def)

lemma series_std_single: "length xs = 1 \<Longrightarrow> series_std xs = 0"
  by (cases xs) (auto simp: series_std_def series_mean_def)

text \<open>
  Claim C8. On a table without rows \<open>compute_summary\<close> fails with the empty-table error.
  On a table with rows it returns a mapping with the count \<open>n\<close>, the mean
  \<open>sum / n\<close>, the median (the middle value of the sorted prices, or the mean of the two
  middle values), the minimum, the maximum and the population standard deviation
  \<open>sqrt (sum of squared deviations from the mean / n)\<close> of the prices, the divisor being
  \<open>n\<close> and not \<open>n - 1\<close>; the key \<open>coeff_var\<close> is present, with the value
  \<open>std / mean\<close>, exactly when the mean is not zero; and on a table of one row the
  returned standard deviation is 0.
\<close>

theorem compute_summary_statistics:
  "(rows df = [] \<longrightarrow> compute_summary df = Inl EmptySummaryData)
   \<and> (rows df \<noteq> [] \<longrightarrow>
        (\<exists>m. compute_summary df = Inr m \<and>
          (let xs = map price (rows df); n = length xs; s = sort xs;
               mu = sum_list xs / real n;
               sd = sqrt (sum_list (map (\<lambda>x. (x - mu)\<^sup>2) xs) / real n)
           in m ''count'' = Some (real n)
            \<and> m ''mean_price'' = Some mu
            \<and> m ''median_price'' =
                Some (if odd n then s ! (n div 2) else (s ! (n div 2 - 1) + s ! (n div 2)) / 2)
            \<and> m ''min_price'' = Some (Min (set xs))
            \<and> m ''max_price'' = Some (Max (set xs))
            \<and> m ''std_price'' = Some sd
            \<and> m ''coeff_var'' = (if mu \<noteq> 0 then Some (sd / mu) else None)
            \<and> (n = 1 \<longrightarrow> m ''std_price'' = Some 0))))"
proof (intro conjI impI)
  assume "rows df = []"
  then show "compute_summary df = Inl EmptySummaryData"
    by (simp add: compute_summary_def)
next
  assume ne: "rows df \<noteq> []"
  let ?xs = "map price (rows df)"
  obtain m where m: "compute_summary df = Inr m"
    and keys: "m ''count'' = Some (real (length (rows df)))"
      "m ''mean_price'' = Some (series_mean ?xs)"
      "m ''median_price'' = Some (series_median ?xs)"
      "m ''min_price'' = Some (Min (set ?xs))"
      "m ''max_price'' = Some (Max (set ?xs))"
      "m ''std_price'' = Some (series_std ?xs)"
      "m ''coeff_var'' =
         (if series_mean ?xs \<noteq> 0 then Some (series_std ?xs / series_mean ?xs) else None)"
    using compute_summary_nonempty [OF ne] by blast
  have single: "length ?xs = 1 \<longrightarrow> m ''std_price'' = Some 0"
    using keys(6) series_std_single [of ?xs] by simp
  have "let xs = ?xs; n = length xs; s = sort xs;
               mu = sum_list xs / real n;
               sd = sqrt (sum_list (map (\<lambda>x. (x - mu)\<^sup>2) xs) / real n)
           in m ''count'' = Some (real n)
            \<and> m ''mean_price'' = Some mu
            \<and> m ''median_price'' =
                Some (if odd n then s ! (n div 2) else (s ! (n div 2 - 1) + s ! (n div 2)) / 2)
            \<and> m ''min_price'' = Some (Min (set xs))
            \<and> m ''max_price'' = Some (Max (set xs))
            \<and> m ''std_price'' = Some sd
            \<and> m ''coeff_var'' = (if mu \<noteq> 0 then Some (sd / mu) else None)
            \<and> (n = 1 \<longrightarrow> m ''std_price'' = Some 0)"
    unfolding Let_def
    apply (intro conjI)
    subgoal using keys(1) by simp
    subgoal using keys(2) by (simp add: series_mean_def)
    subgoal using keys(3) by (simp add: series_median_def Let_def)
    subgoal using keys(4) .
    subgoal using keys(5) .
    subgoal using keys(6) by (simp add: series_std_def series_mean_def)
    subgoal using keys(7) by (simp add: series_std_def series_mean_def)
    subgoal using single .
    done
  with m show "\<exists>m. compute_summary df = Inr m \<and>
          (let xs = map price (rows df); n = length xs; s = sort xs;
               mu = sum_list xs / real n;
               sd = sqrt (sum_list (map (\<lambda>x. (x - mu)\<^sup>2) xs) / real n)
           in m ''count'' = Some (real n)
            \<and> m ''mean_price'' = Some mu
            \<and> m ''median_price'' =
                Some (if odd n then s ! (n div 2) else (s ! (n div 2 - 1) + s ! (n div 2)) / 2)
            \<and> m ''min_price'' = Some (Min (set xs))
            \<and> m ''max_price'' = Some (Max (set xs))
            \<and> m ''std_price'' = Some sd
            \<and> m ''coeff_var'' = (if mu \<noteq> 0 then Some (sd / mu) else None)
            \<and> (n = 1 \<longrightarrow> m ''std_price'' = Some 0))"
    by blast
qed

lemma sqrt_625: "sqrt 625 = 25"
  by (rule real_sqrt_unique) simp_all

text \<open>
  The theorem at an empty frame, at a frame of one row (price 20) and at a frame of two
  rows (prices -100 and -50).
\<close>

theorem compute_summary_statistics_witness:
  "compute_summary (df_single\<lparr>rows := []\<rparr>) = Inl EmptySummaryData
   \<and> rows df_single \<noteq> []
   \<and> (\<exists>m. compute_summary df_single = Inr m
        \<and> m ''count'' = Some 1 \<and> m ''mean_price'' = Some 20 \<and> m ''median_price'' = Some 20
        \<and> m ''min_price'' = Some 20 \<and> m ''max_price'' = Some 20
        \<and> m ''std_price'' = Some 0 \<and> m ''coeff_var'' = Some 0)
   \<and> rows df_negative \<noteq> []
   \<and> (\<exists>m. compute_summary df_negative = Inr m
        \<and> m ''count'' = Some 2 \<and> m ''mean_price'' = Some (-75) \<and> m ''median_price'' = Some (-75)
        \<and> m ''min_price'' = Some (-100) \<and> m ''max_price'' = Some (-50)
        \<and> m ''std_price'' = Some 25 \<and> m ''coeff_var'' = Some (-1/3))"
proof -
  have a: "compute_summary (df_single\<lparr>rows := []\<rparr>) = Inl EmptySummaryData"
    using compute_summary_statistics [of "df_single\<lparr>rows := []\<rparr>"] by simp
  have b: "\<exists>m. compute_summary df_single = Inr m
        \<and> m ''count'' = Some 1 \<and> m ''mean_price'' = Some 20 \<and> m ''median_price'' = Some 20
        \<and> m ''min_price'' = Some 20 \<and> m ''max_price'' = Some 20
        \<and> m ''std_price'' = Some 0 \<and> m ''coeff_var'' = Some 0"
    using compute_summary_statistics [of df_single]
    by (auto simp: df_single_def Let_def)
  have c: "\<exists>m. compute_summary df_negative = Inr m
        \<and> m ''count'' = Some 2 \<and> m ''mean_price'' = Some (-75) \<and> m ''median_price'' = Some (-75)
        \<and> m ''min_price'' = Some (-100) \<and> m ''max_price'' = Some (-50)
        \<and> m ''std_price'' = Some 25 \<and> m ''coeff_var'' = Some (-1/3)"
    using compute_summary_statistics [of df_negative]
    by (auto simp: df_negative_def Let_def sqrt_625)
  show ?thesis
    using a b c rows_single_nonempty rows_negative_nonempty by (intro conjI)
qed

lemma detect_spikes_cutoff:
  assumes "rows df \<noteq> []"
    and "threshold = Some c \<or> (threshold = None \<and> quantile = Some q \<and> 0 \<le> q \<and> q \<le> 1
           \<and> c = series_quantile (map price (rows df)) q)"
  shows "\<exists>events stats. detect_spikes df threshold quantile = Inr (events, stats)
     \<and> stats ''cutoff'' = Some c
     \<and> stats ''spike_count'' = Some (real (length (rows events)))
     \<and> events = df\<lparr>rows := filter (\<lambda>r. price r \<ge> c) (rows df)\<rparr>"
  using assms by (auto simp: detect_spikes_def Let_def)

text \<open>
  Claim C6, as amended. On a non-empty table \<open>detect_spikes\<close> fails with the
  missing-criterion error when threshold and quantile are both absent. When no threshold
  is given, a given quantile must lie in [0, 1]: otherwise the call fails with the
  invalid-quantile error; if it does, the cutoff is the price value at that quantile over
  the whole table, and the returned events are the frame's rows with
  \<open>price \<ge> cutoff\<close>, in their original order. When a threshold is given, it is the
  cutoff, and the quantile is neither used nor checked.
\<close>

theorem detect_spikes_criteria:
  assumes "rows df \<noteq> []"
  shows "detect_spikes df None None = Inl MissingCriterion
       \<and> (\<forall>q. \<not> (0 \<le> q \<and> q \<le> 1) \<longrightarrow> detect_spikes df None (Some q) = Inl QuantileOutOfRange)
       \<and> (\<forall>q. 0 \<le> q \<and> q \<le> 1 \<longrightarrow>
            (\<exists>events stats. detect_spikes df None (Some q) = Inr (events, stats)
               \<and> stats ''cutoff'' = Some (series_quantile (map price (rows df)) q)
               \<and> stats ''spike_count'' = Some (real (length (rows events)))
               \<and> events = df\<lparr>rows :=
                    filter (\<lambda>r. price r \<ge> series_quantile (map price (rows df)) q) (rows df)\<rparr>))
       \<and> (\<forall>c quantile.
            (\<exists>events stats. detect_spikes df (Some c) quantile = Inr (events, stats)
               \<and> stats ''cutoff'' = Some c
               \<and> stats ''spike_count'' = Some (real (length (rows events)))
               \<and> events = df\<lparr>rows := filter (\<lambda>r. price r \<ge> c) (rows df)\<rparr>))"
proof (intro conjI allI impI)
  show "detect_spikes df None None = Inl MissingCriterion"
    using assms by (simp add: detect_spikes_def)
next
  fix q :: real assume "\<not> (0 \<le> q \<and> q \<le> 1)"
  then show "detect_spikes df None (Some q) = Inl QuantileOutOfRange"
    using assms by (simp add: detect_spikes_def)
next
  fix q :: real assume "0 \<le> q \<and> q \<le> 1"
  then show "\<exists>events stats. detect_spikes df None (Some q) = Inr (events, stats)
               \<and> stats ''cutoff'' = Some (series_quantile (map price (rows df)) q)
               \<and> stats ''spike_count'' = Some (real (length (rows events)))
               \<and> events = df\<lparr>rows :=
                    filter (\<lambda>r. price r \<ge> series_quantile (map price (rows df)) q) (rows df)\<rparr>"
    by (intro detect_spikes_cutoff [where q = q, OF assms]) simp
next
  fix c :: real and quantile :: "real option"
  show "\<exists>events stats. detect_spikes df (Some c) quantile = Inr (events, stats)
               \<and> stats ''cutoff'' = Some c
               \<and> stats ''spike_count'' = Some (real (length (rows events)))
               \<and> events = df\<lparr>rows := filter (\<lambda>r. price r \<ge> c) (rows df)\<rparr>"
    by (intro detect_spikes_cutoff [OF assms]) simp
qed

lemma rows_spikes_nonempty: "rows df_spikes \<noteq> []"
  by (simp add: df_spikes_def)

lemma prices_spikes: "map price (rows df_spikes) = [50, 200, 100, 400]"
  by (simp add: df_spikes_def)

lemma quantile_spikes: "series_quantile [50, 200, 100, 400] (9/10) = 340"
  by (simp add: series_quantile_def)

lemma filter_spikes:
  "300 \<le> c \<Longrightarrow> c \<le> 400 \<Longrightarrow> filter (\<lambda>r. price r \<ge> c) (rows df_spikes) =
     [\<lparr>timestamp = 10800000000000, region = ''NSW1'', price = 400, demand = Some 1500\<rparr>]"
  by (simp add: df_spikes_def)

text \<open>
  The theorem at the frame of the tests: no criterion, the quantile 2, the quantile 0.9
  (cutoff 340) and the threshold 300.
\<close>

theorem detect_spikes_criteria_witness:
  "rows df_spikes \<noteq> []
   \<and> detect_spikes df_spikes None None = Inl MissingCriterion
   \<and> \<not> (0 \<le> (2::real) \<and> (2::real) \<le> 1)
   \<and> detect_spikes df_spikes None (Some 2) = Inl QuantileOutOfRange
   \<and> 0 \<le> (9/10::real) \<and> (9/10::real) \<le> 1
   \<and> (\<exists>events stats. detect_spikes df_spikes None (Some (9/10)) = Inr (events, stats)
        \<and> stats ''cutoff'' = Some 340 \<and> stats ''spike_count'' = Some 1
        \<and> rows events =
            [\<lparr>timestamp = 10800000000000, region = ''NSW1'', price = 400, demand = Some 1500\<rparr>])
   \<and> (\<exists>events stats. detect_spikes df_spikes (Some 300) None = Inr (events, stats)
        \<and> stats ''cutoff'' = Some 300 \<and> stats ''spike_count'' = Some 1
        \<and> rows events =
            [\<lparr>timestamp = 10800000000000, region = ''NSW1'', price = 400, demand = Some 1500\<rparr>])"
proof -
  note inst = detect_spikes_criteria [OF rows_spikes_nonempty]
  have a: "detect_spikes df_spikes None None = Inl MissingCriterion"
    using inst by blast
  have b: "detect_spikes df_spikes None (Some 2) = Inl QuantileOutOfRange"
    using inst by simp
  have "\<exists>events stats. detect_spikes df_spikes None (Some (9/10)) = Inr (events, stats)
               \<and> stats ''cutoff'' = Some (series_quantile (map price (rows df_spikes)) (9/10))
               \<and> stats ''spike_count'' = Some (real (length (rows events)))
               \<and> events = df_spikes\<lparr>rows :=
                    filter (\<lambda>r. price r \<ge> series_quantile (map price (rows df_spikes)) (9/10))
                      (rows df_spikes)\<rparr>"
    using inst by simp
  then have c: "\<exists>events stats. detect_spikes df_spikes None (Some (9/10)) = Inr (events, stats)
        \<and> stats ''cutoff'' = Some 340 \<and> stats ''spike_count'' = Some 1
        \<and> rows events =
            [\<lparr>timestamp = 10800000000000, region = ''NSW1'', price = 400, demand = Some 1500\<rparr>]"
    unfolding prices_spikes quantile_spikes by (auto simp: filter_spikes)
  have "\<exists>events stats. detect_spikes df_spikes (Some 300) None = Inr (events, stats)
               \<and> stats ''cutoff'' = Some 300
               \<and> stats ''spike_count'' = Some (real (length (rows events)))
               \<and> events = df_spikes\<lparr>rows := filter (\<lambda>r. price r \<ge> 300) (rows df_spikes)\<rparr>"
    using inst by blast
  then have d: "\<exists>events stats. detect_spikes df_spikes (Some 300) None = Inr (events, stats)
        \<and> stats ''cutoff'' = Some 300 \<and> stats ''spike_count'' = Some 1
        \<and> rows events =
            [\<lparr>timestamp = 10800000000000, region = ''NSW1'', price = 400, demand = Some 1500\<rparr>]"
    by (auto simp: filter_spikes)
  show ?thesis
    using rows_spikes_nonempty a b c d by simp
qed

text \<open>
  Claim C6 as stated (a given quantile outside [0, 1] always fails) does not hold when a
  threshold is given too: with the threshold 300 and the quantile 2 the call succeeds
  and returns the one row at or above 300.
\<close>

theorem detect_spikes_criteria_counterexample:
  "\<not> (0 \<le> (2::real) \<and> (2::real) \<le> 1)
   \<and> detect_spikes df_spikes (Some 300) (Some 2) \<noteq> Inl QuantileOutOfRange
   \<and> detect_spikes df_spikes (Some 300) (Some 2) =
       Inr (df_spikes\<lparr>rows :=
              [\<lparr>timestamp = 10800000000000, region = ''NSW1'', price = 400, demand = Some 1500\<rparr>]\<rparr>,
            [''cutoff'' \<mapsto> 300, ''spike_count'' \<mapsto> 1, ''max_spike'' \<mapsto> 400, ''mean_spike'' \<mapsto> 400])"
proof -
  have "detect_spikes df_spikes (Some 300) (Some 2) =
       Inr (df_spikes\<lparr>rows :=
              [\<lparr>timestamp = 10800000000000, region = ''NSW1'', price = 400, demand = Some 1500\<rparr>]\<rparr>,
            [''cutoff'' \<mapsto> 300, ''spike_count'' \<mapsto> 1, ''max_spike'' \<mapsto> 400, ''mean_spike'' \<mapsto> 400])"
    by (simp add: detect_spikes_def rows_spikes_nonempty filter_spikes series_mean_def Let_def)
  then show ?thesis by simp
qed

section \<open>Properties of the loader\<close>

subsection \<open>Column resolution\<close>

lemma lower_alphabet:
  "lower ''ABCDEFGHIJKLMNOPQRSTUVWXYZ'' = ''abcdefghijklmnopqrstuvwxyz''"
  "lower ''abcdefghijklmnopqrstuvwxyz_0123456789'' = ''abcdefghijklmnopqrstuvwxyz_0123456789''"
  by (simp_all add: lower_def lower_char_def)

lemma normalized_snoc: "normalized (cols @ [c]) = (normalized cols)(lower c \<mapsto> c)"
  by (simp add: normalized_def)

lemma normalized_find: "normalized cols k = find (\<lambda>c. lower c = k) (rev cols)"
proof (induction cols rule: rev_induct)
  case Nil
  show ?case by (simp add: normalized_def)
next
  case (snoc c cols)
  then show ?case by (simp add: normalized_snoc)
qed

lemma normalized_None_iff: "normalized cols k = None \<longleftrightarrow> k \<notin> lower ` set cols"
  by (auto simp: normalized_find find_None_iff)

lemma scan_aliases_find:
  "scan_aliases nmap aliases =
     (case find (\<lambda>a. nmap a \<noteq> None) aliases of None \<Rightarrow> None | Some a \<Rightarrow> nmap a)"
  by (induction aliases) (auto split: option.splits)

lemma lower_aliases:
  "list_all (\<lambda>a. lower a = a) [''timestamp'', ''datetime'', ''settlementdate'', ''trading_interval'',
     ''region'', ''regionid'', ''price'', ''rrp'', ''demand'', ''totaldemand'', ''total_demand'', ''demandmw'']"
  by (simp add: lower_def lower_char_def)

lemma aliases_lower: "a \<in> set (DEFAULT_ALIASES target) \<Longrightarrow> lower a = a"
  using lower_aliases by (auto simp: DEFAULT_ALIASES_def split: if_splits)

lemma resolve_column_override:
  assumes "overrides = Some m" and "m target = Some override"
  shows "resolve_column cols target overrides =
     (if override \<in> set cols then Inr (Some override) else Inl (OverrideNotFound target override))"
  using assms by (simp add: resolve_column_def)

lemma resolve_column_aliases:
  assumes "overrides = None \<or> (\<exists>m. overrides = Some m \<and> m target = None)"
  shows "resolve_column cols target overrides =
     Inr (case find (\<lambda>a. a \<in> lower ` set cols) (DEFAULT_ALIASES target) of
            None \<Rightarrow> None
          | Some a \<Rightarrow> find (\<lambda>c. lower c = a) (rev cols))"
proof -
  have eq: "(\<lambda>a. normalized cols a \<noteq> None) = (\<lambda>a. a \<in> lower ` set cols)"
    by (simp add: normalized_None_iff)
  have "scan_aliases (normalized cols) (DEFAULT_ALIASES target) =
     (case find (\<lambda>a. a \<in> lower ` set cols) (DEFAULT_ALIASES target) of
            None \<Rightarrow> None
          | Some a \<Rightarrow> find (\<lambda>c. lower c = a) (rev cols))"
    unfolding scan_aliases_find eq by (simp add: normalized_find split: option.splits)
  then show ?thesis
    using assms by (auto simp: resolve_column_def)
qed

lemma find_SomeD: "find P xs = Some x \<Longrightarrow> x \<in> set xs \<and> P x"
  by (induction xs) (auto split: if_splits)

lemma resolve_rrp: "resolve_column [''RRP''] ''price'' None = Inr (Some ''RRP'')"
  by (simp add: resolve_column_def DEFAULT_ALIASES_def normalized_def lower_def lower_char_def)

text \<open>
  Claim C5, as amended. For every list of source headers, every role and every optional
  overrides: when an override exists for the role, the result is the override if it is
  among the headers verbatim, and an error that names the role and the missing override
  if it is not. When there is no override for the role, the role's alias list is scanned
  in order, an alias matching a header when the two are equal without regard to case; for
  the first alias that matches, the result is the source header that matches it (as the
  source spells it, and the last such header in file order), not the alias; when no alias
  matches, the result is not-found. In particular, a source with the header \<open>RRP\<close> and
  no override resolves the price role to \<open>RRP\<close>.
\<close>

theorem resolve_column_order:
  "(\<forall>m override. overrides = Some m \<and> m target = Some override \<longrightarrow>
       (override \<in> set cols \<longrightarrow> resolve_column cols target overrides = Inr (Some override))
     \<and> (override \<notin> set cols \<longrightarrow>
          resolve_column cols target overrides = Inl (OverrideNotFound target override)))
   \<and> (overrides = None \<or> (\<exists>m. overrides = Some m \<and> m target = None) \<longrightarrow>
       (\<forall>a. find (\<lambda>a. \<exists>c \<in> set cols. lower c = lower a) (DEFAULT_ALIASES target) = Some a \<longrightarrow>
            (\<exists>h. find (\<lambda>c. lower c = lower a) (rev cols) = Some h
               \<and> resolve_column cols target overrides = Inr (Some h)))
     \<and> (find (\<lambda>a. \<exists>c \<in> set cols. lower c = lower a) (DEFAULT_ALIASES target) = None \<longrightarrow>
          resolve_column cols target overrides = Inr None))
   \<and> resolve_column [''RRP''] ''price'' None = Inr (Some ''RRP'')"
proof (intro conjI allI impI)
  fix m override
  assume "overrides = Some m \<and> m target = Some override" and "override \<in> set cols"
  then show "resolve_column cols target overrides = Inr (Some override)"
    by (simp add: resolve_column_override)
next
  fix m override
  assume "overrides = Some m \<and> m target = Some override" and "override \<notin> set cols"
  then show "resolve_column cols target overrides = Inl (OverrideNotFound target override)"
    by (simp add: resolve_column_override)
next
  have same: "find (\<lambda>a. \<exists>c \<in> set cols. lower c = lower a) (DEFAULT_ALIASES target)
      = find (\<lambda>a. a \<in> lower ` set cols) (DEFAULT_ALIASES target)"
    by (rule find_cong) (auto simp: aliases_lower)
  {
    fix a
    assume no: "overrides = None \<or> (\<exists>m. overrides = Some m \<and> m target = None)"
      and a: "find (\<lambda>a. \<exists>c \<in> set cols. lower c = lower a) (DEFAULT_ALIASES target) = Some a"
    have mem: "a \<in> set (DEFAULT_ALIASES target)" and hit: "a \<in> lower ` set cols"
      using find_SomeD [OF a [unfolded same]] by simp_all
    have la: "lower a = a" using mem by (rule aliases_lower)
    obtain h where h: "find (\<lambda>c. lower c = a) (rev cols) = Some h"
      using hit by (cases "find (\<lambda>c. lower c = a) (rev cols)") (auto simp: find_None_iff)
    have "resolve_column cols target overrides = Inr (Some h)"
      using a h unfolding same by (simp add: resolve_column_aliases [OF no])
    then show "\<exists>h. find (\<lambda>c. lower c = lower a) (rev cols) = Some h
               \<and> resolve_column cols target overrides = Inr (Some h)"
      using h la by simp
  }
  {
    assume no: "overrides = None \<or> (\<exists>m. overrides = Some m \<and> m target = None)"
      and none: "find (\<lambda>a. \<exists>c \<in> set cols. lower c = lower a) (DEFAULT_ALIASES target) = None"
    show "resolve_column cols target overrides = Inr None"
      using none unfolding same by (simp add: resolve_column_aliases [OF no])
  }
  show "resolve_column [''RRP''] ''price'' None = Inr (Some ''RRP'')"
    by (rule resolve_rrp)
qed

lemma first_alias_rrp:
  "find (\<lambda>a. \<exists>c \<in> set [''RRP'']. lower c = lower a) (DEFAULT_ALIASES ''price'') = Some ''rrp''"
  by (simp add: DEFAULT_ALIASES_def lower_def lower_char_def)

lemma first_alias_nem:
  "find (\<lambda>a. \<exists>c \<in> set [''SETTLEMENTDATE'', ''REGIONID'', ''RRP'', ''TOTALDEMAND'']. lower c = lower a)
     (DEFAULT_ALIASES ''price'') = Some ''rrp''"
  by (simp add: DEFAULT_ALIASES_def lower_def lower_char_def)

lemma no_alias_price:
  "find (\<lambda>a. \<exists>c \<in> set [''timestamp'', ''region'']. lower c = lower a)
     (DEFAULT_ALIASES ''price'') = None"
  by (simp add: DEFAULT_ALIASES_def lower_def lower_char_def)

lemma last_header_rrp:
  "find (\<lambda>c. lower c = lower ''rrp'') (rev [''SETTLEMENTDATE'', ''REGIONID'', ''RRP'', ''TOTALDEMAND''])
     = Some ''RRP''"
  by (simp add: lower_def lower_char_def)

text \<open>
  The theorem at an override that is present, an override that is missing, the headers of
  a NEM file (the alias \<open>rrp\<close> finds \<open>RRP\<close>) and headers without a price column.
\<close>

theorem resolve_column_order_witness:
  "resolve_column [''time'', ''zone'', ''price_value''] ''price''
      (Some [''price'' \<mapsto> ''price_value'']) = Inr (Some ''price_value'')
   \<and> resolve_column [''time'', ''zone'', ''price_value''] ''price''
      (Some [''price'' \<mapsto> ''cost'']) = Inl (OverrideNotFound ''price'' ''cost'')
   \<and> find (\<lambda>a. \<exists>c \<in> set [''SETTLEMENTDATE'', ''REGIONID'', ''RRP'', ''TOTALDEMAND'']. lower c = lower a)
        (DEFAULT_ALIASES ''price'') = Some ''rrp''
   \<and> resolve_column [''SETTLEMENTDATE'', ''REGIONID'', ''RRP'', ''TOTALDEMAND''] ''price'' None
        = Inr (Some ''RRP'')
   \<and> find (\<lambda>a. \<exists>c \<in> set [''timestamp'', ''region'']. lower c = lower a)
        (DEFAULT_ALIASES ''price'') = None
   \<and> resolve_column [''timestamp'', ''region''] ''price'' None = Inr None"
proof -
  have a: "resolve_column [''time'', ''zone'', ''price_value''] ''price''
      (Some [''price'' \<mapsto> ''price_value'']) = Inr (Some ''price_value'')"
    using resolve_column_order [of "Some [''price'' \<mapsto> ''price_value'']" "''price''"
        "[''time'', ''zone'', ''price_value'']"]
    by simp
  have b: "resolve_column [''time'', ''zone'', ''price_value''] ''price''
      (Some [''price'' \<mapsto> ''cost'']) = Inl (OverrideNotFound ''price'' ''cost'')"
    using resolve_column_order [of "Some [''price'' \<mapsto> ''cost'']" "''price''"
        "[''time'', ''zone'', ''price_value'']"]
    by simp
  have "\<exists>h. find (\<lambda>c. lower c = lower ''rrp'')
            (rev [''SETTLEMENTDATE'', ''REGIONID'', ''RRP'', ''TOTALDEMAND'']) = Some h
        \<and> resolve_column [''SETTLEMENTDATE'', ''REGIONID'', ''RRP'', ''TOTALDEMAND''] ''price'' None
            = Inr (Some h)"
    using resolve_column_order [of None "''price''"
        "[''SETTLEMENTDATE'', ''REGIONID'', ''RRP'', ''TOTALDEMAND'']"] first_alias_nem
    by blast
  then have c: "resolve_column [''SETTLEMENTDATE'', ''REGIONID'', ''RRP'', ''TOTALDEMAND''] ''price'' None
        = Inr (Some ''RRP'')"
    unfolding last_header_rrp by auto
  have d: "resolve_column [''timestamp'', ''region''] ''price'' None = Inr None"
    using resolve_column_order [of None "''price''" "[''timestamp'', ''region'']"] no_alias_price
    by blast
  show ?thesis
    using a b c d first_alias_nem no_alias_price by (intro conjI)
qed

text \<open>
  Claim C5 as stated (the result is the first alias that matches) fails on the header
  \<open>RRP\<close>: the first alias of the price role that matches is \<open>rrp\<close>, and the result is
  the header \<open>RRP\<close>, which is another string.
\<close>

theorem resolve_column_order_counterexample:
  "find (\<lambda>a. \<exists>c \<in> set [''RRP'']. lower c = lower a) (DEFAULT_ALIASES ''price'') = Some ''rrp''
   \<and> resolve_column [''RRP''] ''price'' None = Inr (Some ''RRP'')
   \<and> resolve_column [''RRP''] ''price'' None \<noteq> Inr (Some ''rrp'')"
  using first_alias_rrp resolve_rrp by simp

subsection \<open>Loading one file\<close>













subsection \<open>Merging files\<close>







end
